theory Spec2Isabelle
  imports Main "HOL-Library.Word"
begin

section \<open>Go values and library functions the pushover service relies on\<close>

text \<open>
  Go strings are byte sequences: \<open>string\<close> (a list of 8-bit characters). Go's \<open>int\<close> is
  taken at its 64-bit size (\<open>strconv.IntSize = 64\<close>), a \<open>64 word\<close> read as two's complement
  by \<open>sint\<close>.
\<close>

type_synonym go_int = "64 word"

text \<open>
  Go's \<open>error\<close> values that occur in the service: \<open>errors.New\<close> of a text, and
  \<open>*strconv.NumError\<close> with the failing function, the input and the cause.
\<close>

datatype NumErr = ErrSyntax | ErrRange

datatype error = errors_New string | NumError string string NumErr

subsection \<open>strconv: decimal formatting and parsing\<close>

text \<open>
  \<open>strconv.formatBits\<close> in base 10: the decimal digits of an unsigned magnitude, most
  significant first, \<open>0\<close> giving the single digit \<open>0\<close>.
\<close>

fun formatBits :: "nat \<Rightarrow> string" where
  "formatBits u =
     (if u < 10 then [char_of (48 + u)]
      else formatBits (u div 10) @ [char_of (48 + u mod 10)])"

declare formatBits.simps [simp del]

text \<open>
  \<open>strconv.FormatInt(i, 10)\<close>: a minus sign and the digits of \<open>-i\<close> when \<open>i\<close> is negative.
  \<open>strconv.Itoa(i)\<close> is \<open>FormatInt(int64(i), 10)\<close>.
\<close>

definition FormatInt :: "int \<Rightarrow> string" where
  "FormatInt i = (if i < 0 then CHR ''-'' # formatBits (nat (- i)) else formatBits (nat i))"

definition Itoa :: "go_int \<Rightarrow> string" where
  "Itoa i = FormatInt (sint i)"

text \<open>
  \<open>strconv.ParseUint(s, 10, 64)\<close>: the loop over the bytes of \<open>s\<close> with its accumulator
  \<open>n\<close> (a \<open>uint64\<close>, the wrap-around of \<open>n + v\<close> written out). A byte that is not a decimal
  digit is a syntax error; \<open>n \<ge> cutoff\<close> (where \<open>n * 10\<close> would overflow) and a wrapped sum
  are range errors, which return the largest value.
\<close>

definition maxUint64 :: nat where
  "maxUint64 = 2 ^ 64 - 1"

fun ParseUint_loop :: "nat \<Rightarrow> string \<Rightarrow> nat \<times> NumErr option" where
  "ParseUint_loop n [] = (n, None)"
| "ParseUint_loop n (d # s) =
     (if \<not> (48 \<le> (of_char d :: nat) \<and> (of_char d :: nat) \<le> 57) then (0, Some ErrSyntax)
      else if n \<ge> maxUint64 div 10 + 1 then (maxUint64, Some ErrRange)
      else
        let n10 = n * 10;
            n1 = (n10 + ((of_char d :: nat) - 48)) mod 2 ^ 64
        in if n1 < n10 \<or> n1 > maxUint64 then (maxUint64, Some ErrRange)
           else ParseUint_loop n1 s)"

definition ParseUint :: "string \<Rightarrow> nat \<times> NumErr option" where
  "ParseUint s = (if s = [] then (0, Some ErrSyntax) else ParseUint_loop 0 s)"

text \<open>
  \<open>strconv.ParseInt(s, 10, 0)\<close>: the empty string is a syntax error; a leading \<open>+\<close> or
  \<open>-\<close> is picked off; the rest is parsed unsigned and checked against
  \<open>cutoff = 2 ^ 63\<close>.
\<close>

definition ParseInt :: "string \<Rightarrow> int \<times> NumErr option" where
  "ParseInt s =
     (case s of
        [] \<Rightarrow> (0, Some ErrSyntax)
      | c # r \<Rightarrow>
          let neg = (c = CHR ''-'');
              s1 = (if c = CHR ''+'' \<or> c = CHR ''-'' then r else s);
              (un, err) = ParseUint s1
          in if err = Some ErrSyntax then (0, Some ErrSyntax)
             else if \<not> neg \<and> un \<ge> 2 ^ 63 then (2 ^ 63 - 1, Some ErrRange)
             else if neg \<and> un > 2 ^ 63 then (- (2 ^ 63), Some ErrRange)
             else (if neg then - int un else int un, None))"

text \<open>
  \<open>strconv.Atoi(s)\<close>: the result of \<open>ParseInt(s, 10, 0)\<close> converted to \<open>int\<close>, the error
  renamed to \<open>Atoi\<close>.
\<close>

definition Atoi :: "string \<Rightarrow> go_int \<times> error option" where
  "Atoi s = (let (i64, err) = ParseInt s in (word_of_int i64, map_option (NumError ''Atoi'' s) err))"

subsection \<open>net/url: form values\<close>

text \<open>
  \<open>url.Values\<close> is \<open>map[string][]string\<close>. \<open>Set\<close> replaces the values of a key by one
  value; \<open>Get\<close> gives the first value of a key, and the empty string when there is none
  (also on the \<open>nil\<close> map, which is the empty map here).
\<close>

type_synonym url_Values = "string \<rightharpoonup> string list"

definition Values_Set :: "url_Values \<Rightarrow> string \<Rightarrow> string \<Rightarrow> url_Values" where
  "Values_Set v key val = v(key \<mapsto> [val])"

definition Values_Get :: "url_Values \<Rightarrow> string \<Rightarrow> string" where
  "Values_Get v key =
     (case v key of None \<Rightarrow> [] | Some [] \<Rightarrow> [] | Some (x # _) \<Rightarrow> x)"

section \<open>The pushover service\<close>

text \<open>
  \<open>time.Time\<close> as nanoseconds since the epoch; its \<open>String\<close> method is a parameter
  \<open>Time_String\<close> of the functions that format a time.
\<close>

type_synonym time = int

text \<open>
  \<open>alert.Level\<close> (package \<open>alert\<close>): an integer type with the four named levels; a value
  that is none of them is \<open>OtherLevel\<close>.
\<close>

datatype Level = OK | Info | Warning | Critical | OtherLevel int

text \<open>
  \<open>Config\<close> (declared in the package's \<open>config.go\<close>): the fields the service reads.
\<close>

record Config =
  Enabled :: bool
  URL :: string
  Token :: string
  User :: string

text \<open>The service holds its configuration in \<open>configValue\<close>.\<close>

record Service =
  configValue :: Config

definition NewService :: "Config \<Rightarrow> Service" where
  "NewService c = \<lparr> configValue = c \<rparr>"

definition config :: "Service \<Rightarrow> Config" where
  "config s = configValue s"

fun priority :: "Level \<Rightarrow> go_int" where
  "priority OK = - 2"
| "priority Info = - 1"
| "priority Warning = 1"
| "priority Critical = 2"
| "priority (OtherLevel _) = 0"

record postData =
  Token :: string
  User :: string
  Message :: string
  Device :: string
  Title :: string
  URL :: string
  URLTitle :: string
  Priority :: go_int
  Timestamp :: "time option"
  Sound :: string

definition Values :: "(time \<Rightarrow> string) \<Rightarrow> postData \<Rightarrow> url_Values" where
  "Values Time_String p =
     (let v = Map.empty;
          v = Values_Set v ''token'' (postData.Token p);
          v = Values_Set v ''user'' (postData.User p);
          v = Values_Set v ''message'' (postData.Message p);
          v = Values_Set v ''priority'' (Itoa (postData.Priority p));
          v = (if postData.Device p \<noteq> [] then Values_Set v ''device'' (postData.Device p) else v);
          v = (if postData.Title p \<noteq> [] then Values_Set v ''title'' (postData.Title p) else v);
          v = (if postData.URL p \<noteq> [] then Values_Set v ''url'' (postData.URL p) else v);
          v = (if postData.URLTitle p \<noteq> []
               then Values_Set v ''url_title'' (postData.URLTitle p) else v);
          v = (if postData.Sound p \<noteq> [] then Values_Set v ''sound'' (postData.Sound p) else v);
          v = (case postData.Timestamp p of
                 None \<Rightarrow> v
               | Some t \<Rightarrow> Values_Set v ''timestamp'' (Time_String t))
      in v)"

text \<open>
  \<open>preparePost\<close> returns the error, or the URL to post to and the form values. \<open>now\<close> is
  what \<open>time.Now()\<close> reads.
\<close>

definition preparePost ::
  "(time \<Rightarrow> string) \<Rightarrow> time \<Rightarrow> Service \<Rightarrow> string \<Rightarrow> string \<Rightarrow> string \<Rightarrow> string \<Rightarrow> string \<Rightarrow>
   string \<Rightarrow> string \<Rightarrow> bool \<Rightarrow> Level \<Rightarrow> error + (string \<times> url_Values)" where
  "preparePost Time_String now s user message device title URL' URLTitle' sound timestamp level =
     (let c = config s in
      if \<not> Enabled c then Inl (errors_New ''service is not enabled'')
      else
        let p = \<lparr> postData.Token = Config.Token c, postData.User = Config.User c,
                  postData.Message = message, postData.Device = [], postData.Title = [],
                  postData.URL = [], postData.URLTitle = [], postData.Priority = 0,
                  postData.Timestamp = None, postData.Sound = [] \<rparr>;
            p = (if user \<noteq> [] then p\<lparr> postData.User := user \<rparr> else p);
            p = p\<lparr> postData.Device := device \<rparr>;
            p = p\<lparr> postData.Title := title \<rparr>;
            p = p\<lparr> postData.URL := URL' \<rparr>;
            p = p\<lparr> postData.URLTitle := URLTitle' \<rparr>;
            p = p\<lparr> postData.Sound := sound \<rparr>;
            p = (if timestamp then p\<lparr> postData.Timestamp := Some now \<rparr> else p);
            p = p\<lparr> postData.Priority := priority level \<rparr>
        in Inr (Config.URL c, Values Time_String p))"

text \<open>
  The network, as \<open>Alert\<close> sees it: \<open>http.PostForm\<close> answers a request with an error or a
  response, whose body reads (\<open>ioutil.ReadAll\<close>) as an error or its bytes. The requests
  performed are recorded in a list, newest last.
\<close>

record Response =
  StatusCode :: int
  Body :: "error + string"

record net =
  PostForm :: "string \<Rightarrow> url_Values \<Rightarrow> error + Response"
  json_error :: "string \<Rightarrow> string option"

text \<open>
  \<open>json_error body\<close> is the \<open>error\<close> field that \<open>encoding/json\<close> decodes from the body, if it
  decodes one; otherwise the text prepared beforehand stays.
\<close>

definition Alert ::
  "net \<Rightarrow> (time \<Rightarrow> string) \<Rightarrow> time \<Rightarrow> Service \<Rightarrow> string \<Rightarrow> string \<Rightarrow> string \<Rightarrow> string \<Rightarrow>
   string \<Rightarrow> string \<Rightarrow> string \<Rightarrow> bool \<Rightarrow> Level \<Rightarrow> (string \<times> url_Values) list \<Rightarrow>
   error option \<times> (string \<times> url_Values) list" where
  "Alert w Time_String now s user message device title URL' URLTitle' sound timestamp level reqs =
     (case preparePost Time_String now s user message device title URL' URLTitle' sound
             timestamp level of
        Inl err \<Rightarrow> (Some err, reqs)
      | Inr (url, post) \<Rightarrow>
          let reqs' = reqs @ [(url, post)] in
          (case PostForm w url post of
             Inl err \<Rightarrow> (Some err, reqs')
           | Inr resp \<Rightarrow>
               if StatusCode resp \<noteq> 200 then
                 (case Body resp of
                    Inl err \<Rightarrow> (Some err, reqs')
                  | Inr body \<Rightarrow>
                      let r = ''failed to understand Slack response. code: ''
                                @ FormatInt (StatusCode resp) @ '' content: '' @ body;
                          r = (case json_error w body of None \<Rightarrow> r | Some e \<Rightarrow> e)
                      in (Some (errors_New r), reqs'))
               else (None, reqs')))"

section \<open>The test server's view of a request (package pushovertest)\<close>

record PostData =
  Token :: string
  User :: string
  Message :: string
  Device :: string
  Title :: string
  URL :: string
  URLTitle :: string
  Sound :: string
  Timestamp :: string
  Priority :: go_int

text \<open>\<open>NewPostData\<close> returns the data read so far together with the error, as the source does.\<close>

definition NewPostData :: "url_Values \<Rightarrow> PostData \<times> error option" where
  "NewPostData v =
     (let p = \<lparr> PostData.Token = Values_Get v ''token'',
                 PostData.User = Values_Get v ''user'',
                 PostData.Message = Values_Get v ''message'',
                 PostData.Device = Values_Get v ''device'',
                 PostData.Title = Values_Get v ''title'',
                 PostData.URL = Values_Get v ''url'',
                 PostData.URLTitle = Values_Get v ''url_title'',
                 PostData.Sound = Values_Get v ''sound'',
                 PostData.Timestamp = Values_Get v ''timestamp'',
                 PostData.Priority = 0 \<rparr>;
          (priority', err) = Atoi (Values_Get v ''priority'')
      in case err of
           Some e \<Rightarrow> (p, Some e)
         | None \<Rightarrow> (p\<lparr> PostData.Priority := priority' \<rparr>, None))"

section \<open>The task manager's template update\<close>

text \<open>
  The server's task store is not among the source files; only the test that drives it
  (\<open>server_test.go\<close>) is. The definitions of this section follow the specification's data
  model and its description of \<open>UpdateTemplate\<close>.
\<close>

text \<open>
  Modelled from the spec: the task type, missing from the sources.
  "type \<open>\<in>\<close> {stream, batch}".
\<close>

datatype task_type = stream | batch

text \<open>
  Modelled from the spec: the task status, missing from the sources.
  "status \<open>\<in>\<close> {disabled, enabled}".
\<close>

datatype status = disabled | enabled

text \<open>
  Modelled from the spec: the variable types, missing from the sources.
  "Variable Types: bool, int, float, duration, string, regex, lambda (expression),
  list<var>, star."
\<close>

datatype var_type = VarBool | VarInt | VarFloat | VarDuration | VarString | VarRegex | VarLambda
  | VarList | VarStar

text \<open>
  Modelled from the spec: a task's typed variable value, missing from the sources
  ("variables: map<name, typed-value>"). The value is kept as its text.
\<close>

record var =
  var_type :: var_type
  var_value :: string

type_synonym vars = "(string \<times> var) list"

text \<open>
  Modelled from the spec: the task record, missing from the sources.
  "Task: {id, type, dbrps: set<(database, retention-policy)>, script-text, compiled-ast,
  template-id?, variables: map<name, typed-value>, status, ...}". The compiled form \<open>'c\<close> is
  whatever the compiler produces; the time stamps, \<open>executing\<close> and \<open>error\<close> play no part in a
  template update and are left out.
\<close>

record 'c task =
  task_id :: string
  task_type :: task_type
  dbrps :: "(string \<times> string) list"
  script_text :: string
  compiled_ast :: 'c
  template_id :: "string option"
  variables :: vars
  task_status :: status

text \<open>
  Modelled from the spec: the template record, missing from the sources.
  "Template: {id, type, script-text, compiled-ast, declared-vars}". The compiled form \<open>'a\<close>
  carries the declared variables.
\<close>

record 'a template =
  tmpl_id :: string
  tmpl_type :: task_type
  tmpl_script_text :: string
  tmpl_compiled_ast :: 'a

text \<open>
  Modelled from the spec: the records the task manager owns, missing from the sources
  ("Task Manager owns task/template records and compiled ASTs"), each kind in the order
  of creation.
\<close>

record ('a, 'c) store =
  tasks :: "'c task list"
  templates :: "'a template list"

text \<open>
  Modelled from the spec: the errors of a template update, missing from the sources: the
  template is not found, the new script does not compile (with the compiler's message), or
  the update failed with the message returned to the caller.
\<close>

datatype tm_error = NotFound string | Invalid string | Failed string

text \<open>
  Modelled from the spec: the tasks linked to a template, missing from the sources: those
  whose \<open>template-id\<close> is the template's id ("task records hold a template-id string").
\<close>

definition linked_tasks :: "('a, 'c) store \<Rightarrow> string \<Rightarrow> 'c task list" where
  "linked_tasks st tid = filter (\<lambda>t. template_id t = Some tid) (tasks st)"

text \<open>
  Modelled from the spec: the lookup of a template by its id, missing from the sources
  (templates are "unique by id").
\<close>

fun find_template :: "'a template list \<Rightarrow> string \<Rightarrow> 'a template option" where
  "find_template [] tid = None"
| "find_template (t # ts) tid = (if tmpl_id t = tid then Some t else find_template ts tid)"

text \<open>
  Modelled from the spec: step (b) and (c) of \<open>UpdateTemplate\<close>, missing from the sources.
  "(b) for each linked task, materialize with its vars; (c) if any fails, abort --- no task
  is altered, error names the first failing task." \<open>mat\<close> materializes the new template with
  a task's variables. The text of the error is the one the test of the rollback expects:
  \<open>error reloading associated task <id>: <error>\<close>.
\<close>

fun reload_tasks ::
  "(vars \<Rightarrow> string + 'c) \<Rightarrow> string \<Rightarrow> string \<Rightarrow> 'c task list \<Rightarrow> tm_error + 'c task list" where
  "reload_tasks mat tid script [] = Inr []"
| "reload_tasks mat tid script (t # ts) =
     (if template_id t = Some tid then
        (case mat (variables t) of
           Inl e \<Rightarrow> Inl (Failed (''error reloading associated task '' @ task_id t @ '': '' @ e))
         | Inr c \<Rightarrow>
             (case reload_tasks mat tid script ts of
                Inl err \<Rightarrow> Inl err
              | Inr ts' \<Rightarrow> Inr (t\<lparr> script_text := script, compiled_ast := c \<rparr> # ts')))
      else
        (case reload_tasks mat tid script ts of
           Inl err \<Rightarrow> Inl err
         | Inr ts' \<Rightarrow> Inr (t # ts')))"

text \<open>
  Modelled from the spec: \<open>UpdateTemplate\<close>, missing from the sources. "Updating a template's
  script recompiles all linked tasks in a transaction. Semantics: (a) compile new template;
  (b) for each linked task, materialize with its vars; (c) if any fails, abort." The
  TICKscript compiler is outside the specification's scope ("the core consumes a compiled
  AST"): \<open>compile\<close> and \<open>materialize\<close> are parameters. The result is the error, if any, and
  the store afterwards.
\<close>

definition UpdateTemplate ::
  "(string \<Rightarrow> string + 'a) \<Rightarrow> ('a \<Rightarrow> vars \<Rightarrow> string + 'c) \<Rightarrow> ('a, 'c) store \<Rightarrow> string \<Rightarrow> string \<Rightarrow>
   tm_error option \<times> ('a, 'c) store" where
  "UpdateTemplate compile materialize st tid script =
     (case find_template (templates st) tid of
        None \<Rightarrow> (Some (NotFound tid), st)
      | Some old \<Rightarrow>
          (case compile script of
             Inl e \<Rightarrow> (Some (Invalid e), st)
           | Inr ast \<Rightarrow>
               (case reload_tasks (materialize ast) tid script (tasks st) of
                  Inl err \<Rightarrow> (Some err, st)
                | Inr ts' \<Rightarrow>
                    (None,
                     st\<lparr> tasks := ts',
                         templates :=
                           map (\<lambda>t. if tmpl_id t = tid
                                    then t\<lparr> tmpl_script_text := script, tmpl_compiled_ast := ast \<rparr>
                                    else t) (templates st) \<rparr>))))"

subsection \<open>Materializing a template with a task's variables\<close>

text \<open>
  Modelled from the spec: a declared variable of a template, missing from the sources.
  "declared-vars: map<name, {type, default?, description?}>", here in the order of
  declaration.
\<close>

record var_decl =
  decl_name :: string
  decl_type :: var_type
  decl_default :: "string option"

text \<open>
  Modelled from the spec: the first declared variable that has neither a default nor a value
  from the task, missing from the sources. "Missing-required-var is a compile-time error."
\<close>

fun missing_var :: "var_decl list \<Rightarrow> vars \<Rightarrow> string option" where
  "missing_var [] vs = None"
| "missing_var (d # ds) vs =
     (if decl_default d = None \<and> map_of vs (decl_name d) = None then Some (decl_name d)
      else missing_var ds vs)"

text \<open>
  Modelled from the spec: the value a declared variable is bound to, missing from the
  sources: the task's value, else the declared default.
\<close>

definition bind_var :: "vars \<Rightarrow> var_decl \<Rightarrow> string \<times> string" where
  "bind_var vs d =
     (decl_name d,
      case map_of vs (decl_name d) of
        Some v \<Rightarrow> var_value v
      | None \<Rightarrow> (case decl_default d of Some x \<Rightarrow> x | None \<Rightarrow> []))"

text \<open>
  Modelled from the spec: materializing a template's declared variables with a task's
  variables, missing from the sources. The error is the specification's
  \<open>missing value for var "<name>".\<close>; the compiled form of the task is the binding of each
  declared variable.
\<close>

definition materialize :: "var_decl list \<Rightarrow> vars \<Rightarrow> string + (string \<times> string) list" where
  "materialize decls vs =
     (case missing_var decls vs of
        Some n \<Rightarrow> Inl (''missing value for var '' @ [CHR 0x22] @ n @ [CHR 0x22] @ ''.'')
      | None \<Rightarrow> Inr (map (bind_var vs) decls))"

subsection \<open>The scenario of the rollback test\<close>

text \<open>
  The data of \<open>TestServer_StreamTemplateTask_UpdateTemplate_Rollback\<close>: a template with the
  script \<open>tickCorrect\<close> and five enabled tasks \<open>testStreamTask-0\<close> to \<open>testStreamTask-4\<close> linked
  to it. The scripts are written on one line, without their string literals; the task
  manager does not look into them.
\<close>

definition tickCorrect :: string where
  "tickCorrect =
     ''var field string stream|from()|window().period(10s).every(10s)|count(field)|httpOut()''"

definition tickNewVar :: string where
  "tickNewVar =
     ''var field string var period duration stream|from()|window().period(period).every(period)|count(field)|httpOut()''"

text \<open>The variables each of the two scripts declares, as the compiler would report them.\<close>

definition test_compile :: "string \<Rightarrow> string + var_decl list" where
  "test_compile s =
     (if s = tickCorrect then
        Inr [\<lparr> decl_name = ''field'', decl_type = VarString, decl_default = None \<rparr>]
      else if s = tickNewVar then
        Inr [\<lparr> decl_name = ''field'', decl_type = VarString, decl_default = None \<rparr>,
             \<lparr> decl_name = ''period'', decl_type = VarDuration, decl_default = None \<rparr>]
      else Inl ''unknown script'')"

definition test_task ::
  "string \<Rightarrow> string \<Rightarrow> vars \<Rightarrow> (string \<times> string) list \<Rightarrow> (string \<times> string) list task" where
  "test_task n script vs c =
     \<lparr> task_id = ''testStreamTask-'' @ n, task_type = stream, dbrps = [(''mydb'', ''myrp'')],
       script_text = script, compiled_ast = c, template_id = Some ''testStreamTemplate'',
       variables = vs, task_status = enabled \<rparr>"

definition test_store ::
  "string \<Rightarrow> var_decl list \<Rightarrow> vars \<Rightarrow> (string \<times> string) list \<Rightarrow>
   (var_decl list, (string \<times> string) list) store" where
  "test_store script decls vs c =
     \<lparr> tasks = map (\<lambda>n. test_task n script vs c) [''0'', ''1'', ''2'', ''3'', ''4''],
       templates = [\<lparr> tmpl_id = ''testStreamTemplate'', tmpl_type = stream,
                      tmpl_script_text = script, tmpl_compiled_ast = decls \<rparr>] \<rparr>"

text \<open>The tasks as created, with the variable \<open>field\<close> only.\<close>

definition vars_field :: vars where
  "vars_field = [(''field'', \<lparr> var_type = VarString, var_value = ''value'' \<rparr>)]"

definition store_field :: "(var_decl list, (string \<times> string) list) store" where
  "store_field =
     test_store tickCorrect
       [\<lparr> decl_name = ''field'', decl_type = VarString, decl_default = None \<rparr>]
       vars_field [(''field'', ''value'')]"

text \<open>The tasks after the test has given each of them the variable \<open>period\<close> as well.\<close>

definition vars_period :: vars where
  "vars_period = [(''field'', \<lparr> var_type = VarString, var_value = ''value'' \<rparr>),
                  (''period'', \<lparr> var_type = VarDuration, var_value = ''10s'' \<rparr>)]"

definition store_period :: "(var_decl list, (string \<times> string) list) store" where
  "store_period =
     test_store tickCorrect
       [\<lparr> decl_name = ''field'', decl_type = VarString, decl_default = None \<rparr>]
       vars_period [(''field'', ''value'')]"

section \<open>Decimal formatting and parsing are inverse on Go's int\<close>

lemma formatBits_not_Nil: "formatBits u \<noteq> []"
  by (subst formatBits.simps) simp

lemma ParseUint_loop_snoc:
  "ParseUint_loop n (s @ [d]) =
     (case ParseUint_loop n s of
        (m, None) \<Rightarrow> ParseUint_loop m [d]
      | (m, Some e) \<Rightarrow> (m, Some e))"
  by (induction s arbitrary: n) (auto simp: Let_def)

lemma ParseUint_loop_digit:
  assumes "m < 2 ^ 64"
  shows "ParseUint_loop (m div 10) [char_of (48 + m mod 10)] = (m, None)"
proof -
  have d: "(of_char (char_of (48 + m mod 10 :: nat)) :: nat) = 48 + m mod 10"
    by (simp add: of_char_of) 
  have c: "\<not> m div 10 \<ge> maxUint64 div 10 + 1"
    using assms by (simp add: maxUint64_def)
  have e: "m div 10 * 10 + m mod 10 = m" by simp
  have f: "\<not> m < m div 10 * 10" by simp
  have g: "m mod 10 \<le> 9" by simp
  show ?thesis
    using assms c f g by (simp add: d e Let_def maxUint64_def)
qed

lemma ParseUint_loop_formatBits:
  "u < 2 ^ 64 \<Longrightarrow> ParseUint_loop 0 (formatBits u) = (u, None)"
proof (induction u rule: formatBits.induct)
  case (1 u)
  show ?case
  proof (cases "u < 10")
    case True
    then have "u div 10 = 0" "u mod 10 = u" by simp_all
    with ParseUint_loop_digit [OF "1.prems"] show ?thesis
      using True by (subst formatBits.simps) simp
  next
    case False
    from "1.prems" have "u div 10 < 2 ^ 64" by simp
    with "1.IH" False have "ParseUint_loop 0 (formatBits (u div 10)) = (u div 10, None)" by simp
    with ParseUint_loop_digit [OF "1.prems"] False show ?thesis
      by (subst formatBits.simps) (simp add: ParseUint_loop_snoc)
  qed
qed

lemma ParseUint_formatBits: "u < 2 ^ 64 \<Longrightarrow> ParseUint (formatBits u) = (u, None)"
  by (simp add: ParseUint_def formatBits_not_Nil ParseUint_loop_formatBits)

lemma hd_formatBits: "hd (formatBits u) \<notin> {CHR ''-'', CHR ''+''}"
proof (induction u rule: formatBits.induct)
  case (1 u)
  show ?case
  proof (cases "u < 10")
    case True
    have "char_of (48 + u) \<notin> {CHR ''-'', CHR ''+''}"
    proof -
      have h: "(of_char (char_of (48 + u)) :: nat) = 48 + u" using True by (simp add: of_char_of)
      have "char_of (48 + u) \<noteq> CHR ''-''"
      proof
        assume a: "char_of (48 + u) = CHR ''-''"
        have "(of_char (char_of (48 + u)) :: nat) = 45" unfolding a by simp
        with h show False by simp
      qed
      moreover have "char_of (48 + u) \<noteq> CHR ''+''"
      proof
        assume a: "char_of (48 + u) = CHR ''+''"
        have "(of_char (char_of (48 + u)) :: nat) = 43" unfolding a by simp
        with h show False by simp
      qed
      ultimately show ?thesis by simp
    qed
    then show ?thesis using True by (subst formatBits.simps) simp
  next
    case False
    with "1.IH" show ?thesis
      by (subst formatBits.simps) (simp add: formatBits_not_Nil)
  qed
qed

lemma ParseInt_FormatInt:
  assumes "- (2 ^ 63) \<le> i" "i < 2 ^ 63"
  shows "ParseInt (FormatInt i) = (i, None)"
proof (cases "i < 0")
  case True
  then have "nat (- i) \<le> 2 ^ 63" using assms by simp
  then have "nat (- i) < 2 ^ 64" by simp
  then have "ParseUint (formatBits (nat (- i))) = (nat (- i), None)"
    by (rule ParseUint_formatBits)
  then show ?thesis using True \<open>nat (- i) \<le> 2 ^ 63\<close>
    by (simp add: ParseInt_def FormatInt_def)
next
  case False
  then have b: "nat i < 2 ^ 63" using assms by simp
  then have "nat i < 2 ^ 64" by simp
  then have p: "ParseUint (formatBits (nat i)) = (nat i, None)"
    by (rule ParseUint_formatBits)
  obtain c r where cr: "formatBits (nat i) = c # r"
    using formatBits_not_Nil by (cases "formatBits (nat i)") auto
  with hd_formatBits [of "nat i"] have "c \<noteq> CHR ''-''" "c \<noteq> CHR ''+''" by simp_all
  then show ?thesis using False b p cr
    by (simp add: ParseInt_def FormatInt_def)
qed

lemma Atoi_Itoa: "Atoi (Itoa i) = (i, None)"
proof -
  have "- (2 ^ 63) \<le> sint i" "sint i < 2 ^ 63"
    using sint_ge [of i] sint_lt [of i] by simp_all
  then have "ParseInt (FormatInt (sint i)) = (sint i, None)" by (rule ParseInt_FormatInt)
  then show ?thesis by (simp add: Atoi_def Itoa_def)
qed

section \<open>Form values written by \<open>Values\<close> and read by \<open>Get\<close>\<close>

lemma Values_Get_Set_same: "Values_Get (Values_Set v k x) k = x"
  by (simp add: Values_Get_def Values_Set_def)

lemma Values_Get_Set_other: "k' \<noteq> k \<Longrightarrow> Values_Get (Values_Set v k x) k' = Values_Get v k'"
  by (simp add: Values_Get_def Values_Set_def)

lemma Values_Get_empty: "Values_Get Map.empty k = []"
  by (simp add: Values_Get_def)

lemma Values_Get_priority: "Values_Get (Values Time_String p) ''priority'' = Itoa (postData.Priority p)"
  by (simp add: Values_def Let_def Values_Get_Set_same Values_Get_Set_other split: option.split)

lemma Values_Get_token: "Values_Get (Values Time_String p) ''token'' = postData.Token p"
  by (simp add: Values_def Let_def Values_Get_Set_same Values_Get_Set_other split: option.split)
lemma Values_Get_user: "Values_Get (Values Time_String p) ''user'' = postData.User p"
  by (simp add: Values_def Let_def Values_Get_Set_same Values_Get_Set_other split: option.split)
lemma Values_Get_message: "Values_Get (Values Time_String p) ''message'' = postData.Message p"
  by (simp add: Values_def Let_def Values_Get_Set_same Values_Get_Set_other split: option.split)
lemma Values_Get_device: "Values_Get (Values Time_String p) ''device'' = postData.Device p"
  by (simp add: Values_def Let_def Values_Get_Set_same Values_Get_Set_other Values_Get_empty split: option.split)
lemma Values_Get_title: "Values_Get (Values Time_String p) ''title'' = postData.Title p"
  by (simp add: Values_def Let_def Values_Get_Set_same Values_Get_Set_other Values_Get_empty split: option.split)
lemma Values_Get_url: "Values_Get (Values Time_String p) ''url'' = postData.URL p"
  by (simp add: Values_def Let_def Values_Get_Set_same Values_Get_Set_other Values_Get_empty split: option.split)
lemma Values_Get_url_title: "Values_Get (Values Time_String p) ''url_title'' = postData.URLTitle p"
  by (simp add: Values_def Let_def Values_Get_Set_same Values_Get_Set_other Values_Get_empty split: option.split)
lemma Values_Get_sound: "Values_Get (Values Time_String p) ''sound'' = postData.Sound p"
  by (simp add: Values_def Let_def Values_Get_Set_same Values_Get_Set_other Values_Get_empty split: option.split)

lemmas Values_Get_Values = Values_Get_priority Values_Get_token Values_Get_user Values_Get_message
  Values_Get_device Values_Get_title Values_Get_url Values_Get_url_title Values_Get_sound

section \<open>The pushover service: properties\<close>

text \<open>
  C9: while the stored configuration has \<open>Enabled = false\<close>, \<open>preparePost\<close> returns the error
  \<open>service is not enabled\<close>, and \<open>Alert\<close> returns that error with the list of performed HTTP
  requests unchanged; while it has \<open>Enabled = true\<close>, \<open>preparePost\<close> returns a URL and form
  values, never an error.
\<close>

theorem preparePost_Enabled:
  "(\<not> Enabled (config s) \<longrightarrow>
      preparePost Time_String now s user message device title URL' URLTitle' sound timestamp level
        = Inl (errors_New ''service is not enabled'') \<and>
      Alert w Time_String now s user message device title URL' URLTitle' sound timestamp level reqs
        = (Some (errors_New ''service is not enabled''), reqs)) \<and>
   (Enabled (config s) \<longrightarrow>
      (\<exists>url post.
         preparePost Time_String now s user message device title URL' URLTitle' sound timestamp level
           = Inr (url, post)))"
  by (simp add: preparePost_def Alert_def Let_def)

theorem preparePost_Enabled_witness:
  "\<not> Enabled (config (NewService \<lparr> Enabled = False, URL = ''http://push'', Token = ''tok'', User = ''usr'' \<rparr>)) \<and>
   preparePost (\<lambda>t. ''T'') 7 (NewService \<lparr> Enabled = False, URL = ''http://push'', Token = ''tok'', User = ''usr'' \<rparr>)
       ''u'' ''msg'' [] [] [] [] [] True Critical
     = Inl (errors_New ''service is not enabled'') \<and>
   Alert \<lparr> PostForm = (\<lambda>u v. Inr \<lparr> StatusCode = 200, Body = Inr [] \<rparr>), json_error = (\<lambda>b. None) \<rparr>
       (\<lambda>t. ''T'') 7 (NewService \<lparr> Enabled = False, URL = ''http://push'', Token = ''tok'', User = ''usr'' \<rparr>)
       ''u'' ''msg'' [] [] [] [] [] True Critical []
     = (Some (errors_New ''service is not enabled''), []) \<and>
   Enabled (config (NewService \<lparr> Enabled = True, URL = ''http://push'', Token = ''tok'', User = ''usr'' \<rparr>)) \<and>
   (\<exists>url post.
      preparePost (\<lambda>t. ''T'') 7 (NewService \<lparr> Enabled = True, URL = ''http://push'', Token = ''tok'', User = ''usr'' \<rparr>)
          ''u'' ''msg'' [] [] [] [] [] True Critical
        = Inr (url, post))"
proof -
  let ?off = "NewService \<lparr> Enabled = False, URL = ''http://push'', Token = ''tok'', User = ''usr'' \<rparr>"
  let ?on = "NewService \<lparr> Enabled = True, URL = ''http://push'', Token = ''tok'', User = ''usr'' \<rparr>"
  have off: "\<not> Enabled (config ?off)" by (simp add: NewService_def config_def)
  have on: "Enabled (config ?on)" by (simp add: NewService_def config_def)
  from off on
    preparePost_Enabled [of ?off "\<lambda>t. ''T''" 7 "''u''" "''msg''" "[]" "[]" "[]" "[]" "[]" True Critical
      "\<lparr> PostForm = (\<lambda>u v. Inr \<lparr> StatusCode = 200, Body = Inr [] \<rparr>), json_error = (\<lambda>b. None) \<rparr>" "[]"]
    preparePost_Enabled [of ?on "\<lambda>t. ''T''" 7 "''u''" "''msg''" "[]" "[]" "[]" "[]" "[]" True Critical]
  show ?thesis by blast
qed

text \<open>
  C10: for every \<open>postData\<close> value \<open>p\<close>, \<open>NewPostData\<close> applied to \<open>p.Values()\<close> returns no
  error, and a \<open>PostData\<close> whose Token, User, Message, Device, Title, URL, URLTitle, Sound and
  Priority are those of \<open>p\<close>.
\<close>

theorem NewPostData_Values_roundtrip:
  "snd (NewPostData (Values Time_String p)) = None \<and>
   PostData.Token (fst (NewPostData (Values Time_String p))) = postData.Token p \<and>
   PostData.User (fst (NewPostData (Values Time_String p))) = postData.User p \<and>
   PostData.Message (fst (NewPostData (Values Time_String p))) = postData.Message p \<and>
   PostData.Device (fst (NewPostData (Values Time_String p))) = postData.Device p \<and>
   PostData.Title (fst (NewPostData (Values Time_String p))) = postData.Title p \<and>
   PostData.URL (fst (NewPostData (Values Time_String p))) = postData.URL p \<and>
   PostData.URLTitle (fst (NewPostData (Values Time_String p))) = postData.URLTitle p \<and>
   PostData.Sound (fst (NewPostData (Values Time_String p))) = postData.Sound p \<and>
   PostData.Priority (fst (NewPostData (Values Time_String p))) = postData.Priority p"
  by (simp add: NewPostData_def Values_Get_Values Atoi_Itoa)

section \<open>The template update: properties\<close>

lemma reload_tasks_Inr:
  "reload_tasks mat tid script ts = Inr ts' \<Longrightarrow>
     length ts' = length ts \<and>
     (\<forall>i < length ts.
        (template_id (ts ! i) = Some tid \<longrightarrow>
           (\<exists>c. mat (variables (ts ! i)) = Inr c \<and>
                ts' ! i = (ts ! i)\<lparr> script_text := script, compiled_ast := c \<rparr>)) \<and>
        (template_id (ts ! i) \<noteq> Some tid \<longrightarrow> ts' ! i = ts ! i))"
proof (induction ts arbitrary: ts')
  case Nil
  then show ?case by simp
next
  case (Cons t ts)
  show ?case
  proof (cases "template_id t = Some tid")
    case True
    with Cons.prems obtain c r where c: "mat (variables t) = Inr c"
      and r: "reload_tasks mat tid script ts = Inr r"
      and ts': "ts' = t\<lparr> script_text := script, compiled_ast := c \<rparr> # r"
      by (auto split: sum.splits)
    from Cons.IH [OF r] show ?thesis using True c ts'
      by (auto simp: nth_Cons split: nat.splits)
  next
    case False
    with Cons.prems obtain r where r: "reload_tasks mat tid script ts = Inr r"
      and ts': "ts' = t # r"
      by (auto split: sum.splits)
    from Cons.IH [OF r] show ?thesis using False ts'
      by (auto simp: nth_Cons split: nat.splits)
  qed
qed

lemma reload_tasks_Inr_linked:
  assumes "reload_tasks mat tid script ts = Inr ts'" "t' \<in> set ts'" "template_id t' = Some tid"
  shows "script_text t' = script \<and> mat (variables t') = Inr (compiled_ast t')"
proof -
  from assms(2) obtain i where i: "i < length ts'" "ts' ! i = t'" by (auto simp: in_set_conv_nth)
  note R = reload_tasks_Inr [OF assms(1)]
  from R i have il: "i < length ts" by simp
  show ?thesis
  proof (cases "template_id (ts ! i) = Some tid")
    case True
    with R il obtain c where "mat (variables (ts ! i)) = Inr c"
      "ts' ! i = (ts ! i)\<lparr> script_text := script, compiled_ast := c \<rparr>" by blast
    with i show ?thesis by auto
  next
    case False
    with R il have "ts' ! i = ts ! i" by blast
    with i False assms(3) show ?thesis by simp
  qed
qed

lemma reload_tasks_first_failure:
  assumes "filter (\<lambda>t. template_id t = Some tid) ts = pre @ t # post"
    and "\<forall>p \<in> set pre. \<exists>c. mat (variables p) = Inr c"
    and "mat (variables t) = Inl e"
  shows "reload_tasks mat tid script ts
         = Inl (Failed (''error reloading associated task '' @ task_id t @ '': '' @ e))"
  using assms
proof (induction ts arbitrary: pre)
  case Nil
  then show ?case by simp
next
  case (Cons a ts)
  show ?case
  proof (cases "template_id a = Some tid")
    case False
    with Cons.prems have "filter (\<lambda>t. template_id t = Some tid) ts = pre @ t # post" by simp
    from Cons.IH [OF this Cons.prems(2) Cons.prems(3)] False show ?thesis by simp
  next
    case True
    with Cons.prems(1) have f: "a # filter (\<lambda>t. template_id t = Some tid) ts = pre @ t # post" by simp
    show ?thesis
    proof (cases pre)
      case Nil
      with f have "a = t" by simp
      with True Cons.prems(3) show ?thesis by simp
    next
      case (Cons p pre')
      with f have ap: "a = p" and rest: "filter (\<lambda>t. template_id t = Some tid) ts = pre' @ t # post"
        by simp_all
      from Cons.prems(2) Cons obtain c where c: "mat (variables a) = Inr c" using ap by auto
      from Cons.prems(2) Cons have "\<forall>p \<in> set pre'. \<exists>c. mat (variables p) = Inr c" by simp
      from Cons.IH [OF rest this Cons.prems(3)] True c show ?thesis by simp
    qed
  qed
qed

lemma reload_tasks_all_ok:
  "\<forall>t \<in> set (filter (\<lambda>t. template_id t = Some tid) ts). \<exists>c. mat (variables t) = Inr c \<Longrightarrow>
   \<exists>ts'. reload_tasks mat tid script ts = Inr ts'"
proof (induction ts)
  case Nil
  then show ?case by simp
next
  case (Cons a ts)
  then obtain r where r: "reload_tasks mat tid script ts = Inr r" by auto
  show ?case
  proof (cases "template_id a = Some tid")
    case True
    with Cons.prems obtain c where "mat (variables a) = Inr c" by auto
    with True r show ?thesis by simp
  next
    case False
    with r show ?thesis by simp
  qed
qed

lemma UpdateTemplate_error_keeps_store:
  "UpdateTemplate compile mater st tid script = (Some err, st') \<Longrightarrow> st' = st"
  by (auto simp: UpdateTemplate_def split: option.splits sum.splits)

lemma UpdateTemplate_success_linked:
  assumes "UpdateTemplate compile mater st tid script = (None, st')"
    and "t \<in> set (linked_tasks st' tid)"
  shows "script_text t = script \<and>
         (\<exists>ast. compile script = Inr ast \<and> mater ast (variables t) = Inr (compiled_ast t))"
proof -
  from assms(1) obtain ast ts' where ast: "compile script = Inr ast"
    and r: "reload_tasks (mater ast) tid script (tasks st) = Inr ts'"
    and st': "tasks st' = ts'"
    by (auto simp: UpdateTemplate_def split: option.splits sum.splits)
  from assms(2) st' have "t \<in> set ts'" "template_id t = Some tid"
    by (simp_all add: linked_tasks_def)
  from reload_tasks_Inr_linked [OF r this] ast show ?thesis by blast
qed

lemma UpdateTemplate_first_failure:
  assumes "find_template (templates st) tid = Some old" "compile script = Inr ast"
    and "linked_tasks st tid = pre @ t # post"
    and "\<forall>p \<in> set pre. \<exists>c. mater ast (variables p) = Inr c"
    and "mater ast (variables t) = Inl e"
  shows "UpdateTemplate compile mater st tid script
         = (Some (Failed (''error reloading associated task '' @ task_id t @ '': '' @ e)), st)"
proof -
  from assms(3) have "filter (\<lambda>t. template_id t = Some tid) (tasks st) = pre @ t # post"
    by (simp add: linked_tasks_def)
  from reload_tasks_first_failure [OF this assms(4) assms(5)] assms(1) assms(2)
  show ?thesis by (simp add: UpdateTemplate_def)
qed

lemma UpdateTemplate_all_ok:
  assumes "find_template (templates st) tid = Some old" "compile script = Inr ast"
    and "\<forall>t \<in> set (linked_tasks st tid). \<exists>c. mater ast (variables t) = Inr c"
  shows "\<exists>st'. UpdateTemplate compile mater st tid script = (None, st')"
proof -
  from assms(3) have "\<forall>t \<in> set (filter (\<lambda>t. template_id t = Some tid) (tasks st)).
      \<exists>c. mater ast (variables t) = Inr c"
    by (simp add: linked_tasks_def)
  from reload_tasks_all_ok [OF this] obtain ts'
    where "reload_tasks (mater ast) tid script (tasks st) = Inr ts'" by blast
  with assms(1) assms(2) show ?thesis by (simp add: UpdateTemplate_def)
qed



end
